theory Spec2Isabelle
  imports Main "HOL-Library.AList"
begin

section \<open>Data model of the parsed chatl tree\<close>

text \<open>
  A sentence part is the JavaScript object \<^verbatim>\<open>{type, value, optional}\<close>. The field
  \<^verbatim>\<open>optional\<close> is absent on text parts (and on the text parts that \<^verbatim>\<open>getIntents\<close>
  creates), which is \<open>None\<close> here; JavaScript reads an absent field as a falsy value.
  A string is the list of its code units; a \<open>char\<close> stands for one code unit below 256.
\<close>

record part =
  ptype :: string
  pvalue :: string
  poptional :: "bool option"

type_synonym sentence = "part list"

text \<open>
  An intent is an object with a \<^verbatim>\<open>data\<close> field (its sentences) and any other fields,
  which live in the extension of the record.
\<close>

record intent =
  data :: "sentence list"

text \<open>A raw synonym definition \<^verbatim>\<open>{data: [{value: ...}, ...]}\<close>.\<close>

record synonym_item =
  item_value :: string

record synonym_def =
  syn_data :: "synonym_item list"

text \<open>
  The constructor argument. Each of the three fields may be absent (\<open>None\<close>), in which
  case the constructor takes the empty object.
\<close>

record ('e, 'x) parsedData =
  pd_intents :: "(string \<rightharpoonup> 'x intent_scheme) option"
  pd_entities :: "(string \<rightharpoonup> 'e) option"
  pd_synonyms :: "(string \<rightharpoonup> synonym_def) option"

text \<open>
  The fields of an \<^verbatim>\<open>Augment\<close> instance; \<open>'p\<close> is the type of entity value providers.
  A field that is a table holds the own keys of the object. The tables are plain
  JavaScript objects: reading a property of one also finds the members that every object
  inherits from \<^verbatim>\<open>Object.prototype\<close> (see \<open>js_get\<close> below).
\<close>

record ('e, 'p, 'x) augment =
  intents :: "string \<rightharpoonup> 'x intent_scheme"
  entities :: "string \<rightharpoonup> 'e"
  synonyms :: "string \<rightharpoonup> synonym_def"
  synonymsValues :: "string \<rightharpoonup> string list"
  entitiesValues :: "string \<rightharpoonup> 'p"

datatype error = Error string

section \<open>Helpers of the modules fp and utils\<close>

text \<open>
  Modelled from the spec: \<^verbatim>\<open>fp.append\<close> on an array target (module \<^verbatim>\<open>./fp\<close> is not part
  of the available source). The candidate lists are concatenated "in sentence order then
  variant order": the appended elements follow the elements of the target.
\<close>

definition fp_append :: "'a list \<Rightarrow> 'a list \<Rightarrow> 'a list" where
  "fp_append new target = target @ new"

text \<open>
  Modelled from the spec: \<^verbatim>\<open>fp.append\<close> on an object target. The spec calls the domain
  table an "object-literal-as-ordered-map": an object has one slot for each key, a key that
  is new goes to the end and a key that is already there keeps its place and takes the
  new value. The object is the association list of its keys in enumeration order.
  Entity names are taken not to be array indices (keys such as \<^verbatim>\<open>"0"\<close>, which
  JavaScript enumerates before the other keys, in numeric order).
\<close>

definition fp_append_obj :: "('k \<times> 'v) list \<Rightarrow> ('k \<times> 'v) list \<Rightarrow> ('k \<times> 'v) list" where
  "fp_append_obj new target = foldl (\<lambda>t kv. AList.update (fst kv) (snd kv) t) target new"

text \<open>
  Modelled from the spec: \<^verbatim>\<open>fp.reduce\<close> with a callback that also reads the index of the
  element (module \<^verbatim>\<open>./fp\<close> is not part of the available source). It is the left fold
  of the array; the first element has index 0. Where \<^verbatim>\<open>getIntents\<close> gives no starting
  value the fold starts from the empty array: the callbacks append to the accumulator and
  treat the element of index 0 as the first one. The reduces that do not read the index
  are \<open>foldl\<close>; \<^verbatim>\<open>fp.map\<close> and \<^verbatim>\<open>fp.filter\<close> are \<open>map\<close> and \<open>filter\<close>, and
  \<^verbatim>\<open>fp.clone\<close> returns a value equal to its argument.
\<close>

fun fp_reduce_idx :: "nat \<Rightarrow> ('b \<Rightarrow> 'a \<Rightarrow> nat \<Rightarrow> 'b) \<Rightarrow> 'b \<Rightarrow> 'a list \<Rightarrow> 'b" where
  "fp_reduce_idx i g acc [] = acc"
| "fp_reduce_idx i g acc (x # xs) = fp_reduce_idx (Suc i) g (g acc x i) xs"

text \<open>
  Modelled from the spec: \<^verbatim>\<open>utils.isSynonym\<close> (module \<^verbatim>\<open>./utils\<close> is not part of the
  available source): "distinguishes SynonymPart from TextPart"; a synonym part is written
  \<^verbatim>\<open>{"type":"synonym", ...}\<close>.
\<close>

definition isSynonym :: "part \<Rightarrow> bool" where
  "isSynonym p = (ptype p = ''synonym'')"

text \<open>
  Modelled from the spec: \<^verbatim>\<open>utils.permutate\<close> (module \<^verbatim>\<open>./utils\<close> is not part of the
  available source): the "cartesian-product generator respecting input domain order";
  the first domain is the slowest-varying axis and the last domain cycles fastest.
  It reads the domains of the object in the order of its keys and returns one array of
  values for each combination.
\<close>

fun permutate :: "('k \<times> 'v list) list \<Rightarrow> 'v list list" where
  "permutate [] = [[]]"
| "permutate (kd # rest) = concat (map (\<lambda>v. map (\<lambda>t. v # t) (permutate rest)) (snd kd))"

text \<open>Reading an array at an index: out of range JavaScript gives \<^verbatim>\<open>undefined\<close>.\<close>

definition js_index :: "'a list \<Rightarrow> nat \<Rightarrow> 'a option" where
  "js_index xs i = (if i < length xs then Some (xs ! i) else None)"

text \<open>
  The white space that \<^verbatim>\<open>trimLeft\<close> and \<^verbatim>\<open>trimRight\<close> remove, among the code units
  below 256: tab, line feed, vertical tab, form feed, carriage return, space and
  no-break space.
\<close>

definition isWhiteSpace :: "char \<Rightarrow> bool" where
  "isWhiteSpace c = (c = CHR 0x09 \<or> c = CHR 0x0A \<or> c = CHR 0x0B \<or> c = CHR 0x0C
     \<or> c = CHR 0x0D \<or> c = CHR 0x20 \<or> c = CHR 0xA0)"

definition trimLeft :: "string \<Rightarrow> string" where
  "trimLeft s = dropWhile isWhiteSpace s"

definition trimRight :: "string \<Rightarrow> string" where
  "trimRight s = rev (dropWhile isWhiteSpace (rev s))"

text \<open>\<^verbatim>\<open>s[0] === ' '\<close>: on the empty string \<^verbatim>\<open>s[0]\<close> is \<^verbatim>\<open>undefined\<close>.\<close>

definition starts_with_space :: "string \<Rightarrow> bool" where
  "starts_with_space s = (case s of [] \<Rightarrow> False | c # _ \<Rightarrow> c = CHR '' '')"

section \<open>The class Augment\<close>

text \<open>
  The constructor. \<open>instantiate\<close> stands for \<^verbatim>\<open>new EntityValueProvider(entity, synonyms)\<close>
  (the class is not part of the available source); it receives the flattened synonym
  table only if the flag is set.
\<close>

definition Augment ::
  "((string \<rightharpoonup> string list) \<Rightarrow> 'e \<Rightarrow> 'p) \<Rightarrow> ('e, 'x) parsedData \<Rightarrow> bool \<Rightarrow> ('e, 'p, 'x) augment" where
  "Augment instantiate parsedData useSynonymsInEntityValueProvider =
     (let i = (case pd_intents parsedData of None \<Rightarrow> Map.empty | Some m \<Rightarrow> m);
          e = (case pd_entities parsedData of None \<Rightarrow> Map.empty | Some m \<Rightarrow> m);
          s = (case pd_synonyms parsedData of None \<Rightarrow> Map.empty | Some m \<Rightarrow> m);
          sv = (\<lambda>name. map_option (\<lambda>d. map item_value (syn_data d)) (s name));
          ev = (\<lambda>name. map_option
                 (instantiate (if useSynonymsInEntityValueProvider then sv else Map.empty))
                 (e name))
      in \<lparr>intents = i, entities = e, synonyms = s, synonymsValues = sv, entitiesValues = ev\<rparr>)"

text \<open>
  The names of the members of \<^verbatim>\<open>Object.prototype\<close>. Each of these members is a function,
  except \<^verbatim>\<open>__proto__\<close>, whose value is the prototype object itself: none is falsy.
\<close>

definition object_prototype_names :: "string list" where
  "object_prototype_names =
     [''constructor'', ''hasOwnProperty'', ''isPrototypeOf'', ''propertyIsEnumerable'',
      ''toLocaleString'', ''toString'', ''valueOf'', ''__proto__'',
      ''__defineGetter__'', ''__defineSetter__'', ''__lookupGetter__'', ''__lookupSetter__'']"

text \<open>
  What a property read \<^verbatim>\<open>obj[name]\<close> on a plain object gives: the value of the own key, or
  else the inherited member of that name, or else \<^verbatim>\<open>undefined\<close> (\<open>None\<close>).
\<close>

datatype 'v js_member = Own 'v | Inherited string

definition js_get :: "(string \<rightharpoonup> 'v) \<Rightarrow> string \<Rightarrow> 'v js_member option" where
  "js_get obj name =
     (case obj name of
        Some v \<Rightarrow> Some (Own v)
      | None \<Rightarrow> if name \<in> set object_prototype_names then Some (Inherited name) else None)"

text \<open>
  Lines 33-41. A provider is an object and an inherited member is a function or an object,
  so \<^verbatim>\<open>!provider\<close> holds only if the read gave \<^verbatim>\<open>undefined\<close>.
\<close>

definition getEntity :: "('e, 'p, 'x) augment \<Rightarrow> string \<Rightarrow> error + 'p js_member" where
  "getEntity a name =
     (case js_get (entitiesValues a) name of
        None \<Rightarrow> Inl (Error (''Could not find an entity with the name: '' @ name))
      | Some provider \<Rightarrow> Inr provider)"

text \<open>
  Lines 48-50, for the names of entities that are not names of members of
  \<^verbatim>\<open>Object.prototype\<close>: the read finds the own key or nothing.
\<close>

definition getSynonyms :: "('e, 'p, 'x) augment \<Rightarrow> string \<Rightarrow> string list" where
  "getSynonyms a entity = (case synonymsValues a entity of None \<Rightarrow> [] | Some vs \<Rightarrow> vs)"

subsection \<open>getIntents\<close>

text \<open>
  The value of the one-key object literal of line 71:
  \<^verbatim>\<open>(c.optional ? [''] : []).concat(this.getSynonyms(c.value))\<close>.
\<close>

definition domain :: "('e, 'p, 'x) augment \<Rightarrow> part \<Rightarrow> string list" where
  "domain a c = (if poptional c = Some True then [''''] else []) @ getSynonyms a (pvalue c)"

text \<open>Lines 70-72: the object \<^verbatim>\<open>synonymsData\<close>, built key by key from the empty object.\<close>

definition synonymsData :: "('e, 'p, 'x) augment \<Rightarrow> part list \<Rightarrow> (string \<times> string list) list" where
  "synonymsData a sentenceSynonyms =
     foldl (\<lambda>p c. fp_append_obj [(pvalue c, domain a c)] p) [] sentenceSynonyms"

text \<open>
  Lines 78-94: the callback of the reduce that replaces the synonym parts. Its state is
  the cursor \<^verbatim>\<open>idx\<close> of the enclosing function and the accumulator \<^verbatim>\<open>p\<close>. The value
  read from the permutation is falsy if it is \<^verbatim>\<open>undefined\<close> or the empty string.
\<close>

definition replace_step :: "string list \<Rightarrow> nat \<times> part list \<Rightarrow> part \<Rightarrow> nat \<times> part list" where
  "replace_step permutation st c =
     (case st of (idx, p) \<Rightarrow>
        if \<not> isSynonym c then (idx, fp_append [c] p)
        else (case js_index permutation idx of
                None \<Rightarrow> (Suc idx, p)
              | Some v \<Rightarrow>
                  if v \<noteq> [] then
                    (Suc idx, fp_append [\<lparr>ptype = ''text'', pvalue = v, poptional = None\<rparr>] p)
                  else (Suc idx, p)))"

definition replace_parts :: "string list \<Rightarrow> part list \<Rightarrow> part list" where
  "replace_parts permutation sentence = snd (foldl (replace_step permutation) (0, []) sentence)"

text \<open>
  Lines 97-115: the callback of the reduce that strips the white space. The second
  disjunct of line 106 is evaluated only if the first one is false.
\<close>

definition strip_step :: "part list \<Rightarrow> part list \<Rightarrow> part \<Rightarrow> nat \<Rightarrow> part list" where
  "strip_step parts f part0 i =
     (let p1 = (if i = 0 then part0\<lparr>pvalue := trimLeft (pvalue part0)\<rparr> else part0);
          p2 = (if (if i = length parts - 1 then True
                    else starts_with_space (pvalue (parts ! (i + 1))))
                then p1\<lparr>pvalue := trimRight (pvalue p1)\<rparr> else p1)
      in if pvalue p2 = [] then f else fp_append [p2] f)"

definition strippedParts :: "part list \<Rightarrow> part list" where
  "strippedParts parts = fp_reduce_idx 0 (strip_step parts) [] parts"

text \<open>Lines 75-118: the sentence made for one permutation.\<close>

definition variant :: "part list \<Rightarrow> string list \<Rightarrow> part list" where
  "variant sentence permutation = strippedParts (replace_parts permutation sentence)"

text \<open>Lines 60-119: the callback of the reduce over the sentences of an intent.\<close>

definition sentence_step :: "('e, 'p, 'x) augment \<Rightarrow> sentence list \<Rightarrow> sentence \<Rightarrow> sentence list" where
  "sentence_step a acc sentence =
     (let sentenceSynonyms = filter isSynonym sentence
      in if length sentenceSynonyms = 0 then fp_append [sentence] acc
         else fp_append (map (variant sentence) (permutate (synonymsData a sentenceSynonyms))) acc)"

definition processIntentData :: "('e, 'p, 'x) augment \<Rightarrow> 'y intent_scheme \<Rightarrow> 'y intent_scheme" where
  "processIntentData a intentData =
     intentData\<lparr>data := foldl (sentence_step a) [] (data intentData)\<rparr>"

definition getIntents :: "('e, 'p, 'x) augment \<Rightarrow> (string \<rightharpoonup> 'x intent_scheme)" where
  "getIntents a = (\<lambda>name. map_option (processIntentData a) (intents a name))"

text \<open>The text that a sentence renders to: the concatenation of the values of its parts.\<close>

definition render :: "part list \<Rightarrow> string" where
  "render s = concat (map pvalue s)"

section \<open>Parts and scenarios used in the statements\<close>

text \<open>The two kinds of part as the parser writes them.\<close>

definition TextPart :: "string \<Rightarrow> part" where
  "TextPart v = \<lparr>ptype = ''text'', pvalue = v, poptional = None\<rparr>"

definition SynonymPart :: "string \<Rightarrow> bool \<Rightarrow> part" where
  "SynonymPart entity opt = \<lparr>ptype = ''synonym'', pvalue = entity, poptional = Some opt\<rparr>"


text \<open>The concrete scenario of the specification: one intent, one entity with two synonyms.\<close>

definition greet_data :: "(unit, unit) parsedData" where
  "greet_data =
     \<lparr>pd_intents = Some [''greet'' \<mapsto>
        \<lparr>data = [[TextPart ''Hello '', SynonymPart ''name'' True, TextPart '' there'']]\<rparr>],
      pd_entities = None,
      pd_synonyms = Some [''name'' \<mapsto>
        \<lparr>syn_data = [\<lparr>item_value = ''Alice''\<rparr>, \<lparr>item_value = ''Bob''\<rparr>]\<rparr>]\<rparr>"

definition greet :: "(unit, unit, unit) augment" where
  "greet = Augment (\<lambda>_ _. ()) greet_data False"

text \<open>
  A second instance: an entity \<open>city\<close> (its provider is the number 7), the synonyms
  \<open>a\<close>, \<open>b\<close> of \<open>x\<close> and the synonyms of \<open>when\<close>, the first of which is the empty
  string. Nothing is configured for the name \<open>y\<close>.
\<close>

definition demo_data :: "(nat, unit) parsedData" where
  "demo_data =
     \<lparr>pd_intents = None,
      pd_entities = Some [''city'' \<mapsto> 7],
      pd_synonyms = Some
        [''x'' \<mapsto> \<lparr>syn_data = [\<lparr>item_value = ''a''\<rparr>, \<lparr>item_value = ''b''\<rparr>]\<rparr>,
         ''when'' \<mapsto> \<lparr>syn_data = [\<lparr>item_value = ''''\<rparr>, \<lparr>item_value = ''now''\<rparr>]\<rparr>]\<rparr>"

definition demo :: "(nat, nat, unit) augment" where
  "demo = Augment (\<lambda>_ d. d) demo_data False"

text \<open>The texts that the sentences of an intent render to.\<close>

definition intent_texts :: "'x intent_scheme \<Rightarrow> string list" where
  "intent_texts i = map render (data i)"

text \<open>The sentence of the white space law.\<close>

definition hello_world :: "part list" where
  "hello_world = [TextPart ''Hello '', SynonymPart ''greeting'' True, TextPart '' world'']"

section \<open>The reduce over the sentences\<close>

lemma sentence_step_acc: "sentence_step a acc s = acc @ sentence_step a [] s"
  by (simp add: sentence_step_def fp_append_def Let_def)

lemma foldl_sentence_step:
  "foldl (sentence_step a) acc ss = acc @ concat (map (sentence_step a []) ss)"
proof (induction ss arbitrary: acc)
  case Nil
  show ?case by simp
next
  case (Cons s ss)
  have "foldl (sentence_step a) acc (s # ss) = foldl (sentence_step a) (sentence_step a acc s) ss"
    by simp
  also have "\<dots> = sentence_step a acc s @ concat (map (sentence_step a []) ss)"
    by (rule Cons.IH)
  also have "\<dots> = acc @ concat (map (sentence_step a []) (s # ss))"
    using sentence_step_acc [of a acc s] by simp
  finally show ?case .
qed

section \<open>The replacement of the synonym parts\<close>








section \<open>The white space pass\<close>

lemma strip_step_acc: "strip_step parts f p i = f @ strip_step parts [] p i"
  by (simp add: strip_step_def fp_append_def Let_def)

lemma fp_reduce_strip:
  "fp_reduce_idx i (strip_step parts) acc xs =
     acc @ concat (map (\<lambda>xj. strip_step parts [] (fst xj) (snd xj)) (zip xs [i..<i + length xs]))"
proof (induction xs arbitrary: i acc)
  case Nil
  show ?case by simp
next
  case (Cons x xs)
  have u: "[i..<i + length (x # xs)] = i # [Suc i..<Suc i + length xs]"
    using upt_conv_Cons [of i "i + length (x # xs)"] by simp
  show ?case
    unfolding u using Cons.IH [of "Suc i" "strip_step parts acc x i"] strip_step_acc [of parts acc x i]
    by simp
qed

text \<open>The stripped sentence is made part by part: each part gives one part or none.\<close>

lemma strippedParts_concat:
  "strippedParts parts =
     concat (map (\<lambda>xj. strip_step parts [] (fst xj) (snd xj)) (zip parts [0..<length parts]))"
  using fp_reduce_strip [of 0 parts "[]" parts] by (simp add: strippedParts_def)

text \<open>
  Claim C9. For a part that is not the last one (index \<open>i\<close> with a part at \<open>i + 1\<close>), the
  callback trims the text on the right exactly when the text of the following part starts
  with the space character; otherwise the text keeps what it ends with (the first part is
  still trimmed on the left). A text starts with the space character only if its first
  character is the space itself, so a tab or any other white space does not count.
\<close>

theorem seam_trim_only_before_space:
  "Suc i < length parts \<Longrightarrow>
   strip_step parts f p i =
     (let v = (if i = 0 then trimLeft (pvalue p) else pvalue p);
          w = (if starts_with_space (pvalue (parts ! Suc i)) then trimRight v else v)
      in if w = [] then f else f @ [p\<lparr>pvalue := w\<rparr>])
   \<and> starts_with_space s = (s \<noteq> [] \<and> hd s = CHR '' '')"
proof -
  assume "Suc i < length parts"
  then have "i \<noteq> length parts - 1"
    by arith
  then have "strip_step parts f p i =
     (let v = (if i = 0 then trimLeft (pvalue p) else pvalue p);
          w = (if starts_with_space (pvalue (parts ! Suc i)) then trimRight v else v)
      in if w = [] then f else f @ [p\<lparr>pvalue := w\<rparr>])"
    by (simp add: strip_step_def fp_append_def Let_def)
  moreover have "starts_with_space s = (s \<noteq> [] \<and> hd s = CHR '' '')"
    by (cases s) (simp_all add: starts_with_space_def)
  ultimately show ?thesis by simp
qed

text \<open>
  A part that ends with a space, before a part that starts with a tab: the space stays.
  Before a part that starts with a space it goes.
\<close>

theorem seam_trim_only_before_space_witness:
  "Suc 0 < length [TextPart ''a '', TextPart [CHR 0x09, CHR ''b'']] \<and>
   \<not> starts_with_space (pvalue ([TextPart ''a '', TextPart [CHR 0x09, CHR ''b'']] ! Suc 0)) \<and>
   strip_step [TextPart ''a '', TextPart [CHR 0x09, CHR ''b'']] [] (TextPart ''a '') 0 =
     [TextPart ''a ''] \<and>
   strippedParts [TextPart ''a '', TextPart [CHR 0x09, CHR ''b'']] =
     [TextPart ''a '', TextPart [CHR 0x09, CHR ''b'']] \<and>
   strippedParts [TextPart ''a '', TextPart '' b''] = [TextPart ''a'', TextPart '' b'']"
proof -
  have h: "Suc 0 < length [TextPart ''a '', TextPart [CHR 0x09, CHR ''b'']]"
    by simp
  have n: "\<not> starts_with_space (pvalue ([TextPart ''a '', TextPart [CHR 0x09, CHR ''b'']] ! Suc 0))"
    by code_simp
  have e: "(let v = (if (0::nat) = 0 then trimLeft (pvalue (TextPart ''a ''))
                     else pvalue (TextPart ''a ''));
          w = (if starts_with_space (pvalue ([TextPart ''a '', TextPart [CHR 0x09, CHR ''b'']] ! Suc 0))
               then trimRight v else v)
      in if w = [] then [] else [] @ [(TextPart ''a '')\<lparr>pvalue := w\<rparr>]) = [TextPart ''a '']"
    by code_simp
  have t: "strippedParts [TextPart ''a '', TextPart [CHR 0x09, CHR ''b'']] =
     [TextPart ''a '', TextPart [CHR 0x09, CHR ''b'']]"
    by code_simp
  have u: "strippedParts [TextPart ''a '', TextPart '' b''] = [TextPart ''a'', TextPart '' b'']"
    by code_simp
  from seam_trim_only_before_space [OF h, of "[]" "TextPart ''a ''" "[]"] e
  have "strip_step [TextPart ''a '', TextPart [CHR 0x09, CHR ''b'']] [] (TextPart ''a '') 0 =
     [TextPart ''a '']"
    by simp
  then show ?thesis using h n t u by blast
qed

text \<open>
  Claim C4. In the sentence \<open>hello_world\<close> the variant for the permutation that gives the
  optional synonym the empty string is the two parts \<open>Hello\<close> and \<open> world\<close>: its text is
  \<open>Hello world\<close>, with one space inside and none at either end.
\<close>

theorem hello_world_whitespace:
  "variant hello_world [''''] = [TextPart ''Hello'', TextPart '' world''] \<and>
   render (variant hello_world ['''']) = ''Hello world''"
  by code_simp

section \<open>The permutations of a sentence\<close>

lemma length_permutate:
  "length (permutate obj) = prod_list (map (\<lambda>kd. length (snd kd)) obj)"
proof (induction obj)
  case Nil
  show ?case by simp
next
  case (Cons kd rest)
  have "length (permutate (kd # rest)) =
      sum_list (map (\<lambda>v. length (permutate rest)) (snd kd))"
    by (simp add: length_concat comp_def)
  also have "\<dots> = length (snd kd) * length (permutate rest)"
    by (simp add: sum_list_triv)
  finally show ?case using Cons.IH by simp
qed

lemma permutate_empty_domain:
  "(k, []) \<in> set obj \<Longrightarrow> permutate obj = []"
  by (induction obj) auto

lemma permutate_single: "permutate [kd] = map (\<lambda>v. [v]) (snd kd)"
proof -
  have "concat (map (\<lambda>v. [[v]]) d) = map (\<lambda>v. [v]) d" for d :: "'b list"
    by (induction d) simp_all
  then show ?thesis by simp
qed

lemma update_fresh:
  "k \<notin> fst ` set al \<Longrightarrow> AList.update k v al = al @ [(k, v)]"
  by (induction al) auto

lemma synonymsData_fold_distinct:
  "distinct (map fst acc @ map pvalue cs) \<Longrightarrow>
   foldl (\<lambda>p c. fp_append_obj [(pvalue c, domain a c)] p) acc cs =
     acc @ map (\<lambda>c. (pvalue c, domain a c)) cs"
proof (induction cs arbitrary: acc)
  case Nil
  show ?case by simp
next
  case (Cons c cs)
  have fresh: "pvalue c \<notin> fst ` set acc"
    using Cons.prems by auto
  have step: "fp_append_obj [(pvalue c, domain a c)] acc = acc @ [(pvalue c, domain a c)]"
    using update_fresh [OF fresh] by (simp add: fp_append_obj_def)
  have "distinct (map fst (acc @ [(pvalue c, domain a c)]) @ map pvalue cs)"
    using Cons.prems by auto
  from Cons.IH [OF this] show ?case
    using step by simp
qed

text \<open>
  When the synonym parts of a sentence name different entities, the object has one slot
  for each part, in the order of the parts.
\<close>

lemma synonymsData_distinct:
  "distinct (map pvalue cs) \<Longrightarrow> synonymsData a cs = map (\<lambda>c. (pvalue c, domain a c)) cs"
  using synonymsData_fold_distinct [of "[]" cs a] by (simp add: synonymsData_def)

text \<open>
  For such a sentence the number of variants is the product of the sizes of the domains
  of its synonym parts, and a synonym part with an empty domain leaves no variant.
\<close>

lemma variant_count_distinct:
  "distinct (map pvalue (filter isSynonym s)) \<Longrightarrow>
   length (sentence_step a [] s) =
     prod_list (map (\<lambda>c. length (domain a c)) (filter isSynonym s))"
  by (simp add: sentence_step_def fp_append_def Let_def length_permutate
      synonymsData_distinct comp_def)

lemma empty_domain_vanishes_distinct:
  "c \<in> set s \<Longrightarrow> isSynonym c \<Longrightarrow> domain a c = [] \<Longrightarrow>
   distinct (map pvalue (filter isSynonym s)) \<Longrightarrow> sentence_step a acc s = acc"
proof -
  assume c: "c \<in> set s" "isSynonym c" "domain a c = []"
    and d: "distinct (map pvalue (filter isSynonym s))"
  have "(pvalue c, []) \<in> set (synonymsData a (filter isSynonym s))"
    using c by (force simp add: synonymsData_distinct [OF d])
  then have "permutate (synonymsData a (filter isSynonym s)) = []"
    by (rule permutate_empty_domain)
  moreover have "filter isSynonym s \<noteq> []"
    using c by (auto simp add: filter_empty_conv)
  ultimately show ?thesis
    by (simp add: sentence_step_def fp_append_def Let_def)
qed

text \<open>
  The variants of a sentence with one synonym part: one for each value of its domain, in
  the order of the domain. For an optional part the empty value comes first.
\<close>

lemma hello_world_variants:
  "sentence_step a [] hello_world =
     variant hello_world [''''] #
     map (\<lambda>v. variant hello_world [v]) (getSynonyms a ''greeting'')"
proof -
  have f: "filter isSynonym hello_world = [SynonymPart ''greeting'' True]"
    by code_simp
  have d: "synonymsData a [SynonymPart ''greeting'' True] =
      [(''greeting'', '''' # getSynonyms a ''greeting'')]"
    by (simp add: synonymsData_def fp_append_obj_def domain_def SynonymPart_def)
  have "sentence_step a [] hello_world =
      map (variant hello_world) (map (\<lambda>v. [v]) ('''' # getSynonyms a ''greeting''))"
    unfolding sentence_step_def f Let_def d permutate_single
    by (simp add: fp_append_def)
  then show ?thesis by (simp add: comp_def)
qed

text \<open>
  Claim C5. A sentence without synonym parts adds exactly one sentence to the
  accumulator, and that sentence is the input sentence itself.
\<close>

theorem no_synonym_single_variant:
  "filter isSynonym sentence = [] \<Longrightarrow> sentence_step a acc sentence = acc @ [sentence]"
  by (simp add: sentence_step_def fp_append_def)

theorem no_synonym_single_variant_witness:
  "filter isSynonym [TextPart ''Hello '', TextPart ''world''] = [] \<and>
   sentence_step greet [] [TextPart ''Hello '', TextPart ''world''] =
     [[TextPart ''Hello '', TextPart ''world'']]"
proof -
  have h: "filter isSynonym [TextPart ''Hello '', TextPart ''world''] = []"
    by code_simp
  show ?thesis
    using h no_synonym_single_variant [OF h, of greet "[]"] by simp
qed

section \<open>The intents\<close>

text \<open>
  Claim C8. \<open>getIntents\<close> keeps the names of the intents; in each intent it replaces the
  field \<open>data\<close> by the variants of its sentences, concatenated in the order of the
  sentences, and every other field of the intent (the extension of the record) is the
  one of the input.
\<close>

theorem getIntents_replaces_data_only:
  "getIntents a name = map_option (processIntentData a) (intents a name) \<and>
   processIntentData a i = i\<lparr>data := concat (map (sentence_step a []) (data i))\<rparr> \<and>
   intent.more (processIntentData a i) = intent.more i"
  using foldl_sentence_step [of a "[]" "data i"]
  by (simp add: getIntents_def processIntentData_def)

section \<open>The entities\<close>

text \<open>
  What \<open>getEntity\<close> returns, by the three cases of the property read: the provider of
  an own key, the inherited member for a name of \<^verbatim>\<open>Object.prototype\<close> that is no own key,
  and the error with its message for any other name.
\<close>

lemma getEntity_cases:
  "getEntity a name =
     (case entitiesValues a name of
        Some provider \<Rightarrow> Inr (Own provider)
      | None \<Rightarrow>
          if name \<in> set object_prototype_names then Inr (Inherited name)
          else Inl (Error (''Could not find an entity with the name: '' @ name)))"
  by (simp add: getEntity_def js_get_def split: option.splits)

lemma getEntity_demo:
  "getEntity demo ''unknown'' = Inl (Error ''Could not find an entity with the name: unknown'') \<and>
   getEntity demo ''city'' = Inr (Own 7)"
  by code_simp

text \<open>
  Claim C7 at the name \<open>constructor\<close>. The table of providers has no entry for it, and
  \<open>getEntity\<close> does not fail: line 34 reads the member that the table inherits, the test
  of line 36 finds it truthy and line 40 returns it, a value that is no provider.
\<close>

theorem getEntity_inherited_name:
  "entitiesValues demo ''constructor'' = None \<and>
   getEntity demo ''constructor'' = Inr (Inherited ''constructor'') \<and>
   getEntity demo ''constructor'' \<noteq>
     Inl (Error ''Could not find an entity with the name: constructor'')"
  by code_simp

section \<open>The concrete scenario\<close>

text \<open>
  Claim C1, as the code has it. In the scenario \<open>getIntents\<close> gives the intent \<open>greet\<close>
  exactly three sentences, and their texts are \<open>Hello there\<close>, \<open>Hello Alice there\<close>,
  \<open>Hello Bob there\<close> in that order: line 71 puts the empty value of an optional synonym
  at the head of its domain, so the variant without the synonym comes first.
\<close>

theorem greet_scenario_texts:
  "map_option intent_texts (getIntents greet ''greet'') =
     Some [''Hello there'', ''Hello Alice there'', ''Hello Bob there''] \<and>
   map_option data (getIntents greet ''greet'') =
     Some [[TextPart ''Hello'', TextPart '' there''],
           [TextPart ''Hello '', TextPart ''Alice'', TextPart '' there''],
           [TextPart ''Hello '', TextPart ''Bob'', TextPart '' there'']]"
  by code_simp

text \<open>The order that claim C1 states is not the order of the result.\<close>

theorem greet_scenario_order_counterexample:
  "map_option intent_texts (getIntents greet ''greet'') \<noteq>
     Some [''Hello Alice there'', ''Hello Bob there'', ''Hello there'']"
  by code_simp

section \<open>Sentences that name an entity twice\<close>

text \<open>
  Claim C2 at the sentence \<open>x or x\<close>, both parts required, with the values \<open>a\<close> and \<open>b\<close>
  for \<open>x\<close>. The object of line 70 is keyed by the entity name, so the two parts share one
  slot; a permutation holds one value, the cursor of line 83 finds nothing for the second
  part and the part is dropped. The sentence has the two variants \<open>a or\<close> and \<open>b or\<close>,
  not the four combinations.
\<close>

theorem repeated_entity_shares_one_slot:
  "synonymsData demo
     (filter isSynonym [SynonymPart ''x'' False, TextPart '' or '', SynonymPart ''x'' False]) =
     [(''x'', [''a'', ''b''])] \<and>
   map render
     (sentence_step demo [] [SynonymPart ''x'' False, TextPart '' or '', SynonymPart ''x'' False]) =
     [''a or'', ''b or'']"
  by code_simp

text \<open>
  Claim C3 at the same sentence: its two synonym parts have domains of size 2 and 2, and
  it has 2 variants.
\<close>

theorem repeated_entity_variant_count:
  "map (\<lambda>c. length (domain demo c))
     (filter isSynonym [SynonymPart ''x'' False, TextPart '' or '', SynonymPart ''x'' False]) =
     [2, 2] \<and>
   length
     (sentence_step demo [] [SynonymPart ''x'' False, TextPart '' or '', SynonymPart ''x'' False]) =
     2"
  by code_simp

text \<open>
  Claim C6 at the sentence \<open>call y or y\<close>, the first part required and the second one
  optional, with no value configured for \<open>y\<close>. The domain of the required part is empty,
  but the slot of \<open>y\<close> takes the domain of the later, optional part, which holds the
  empty value: the sentence has one variant.
\<close>

theorem required_empty_entity_repeated:
  "domain demo (SynonymPart ''y'' False) = [] \<and>
   sentence_step demo []
     [TextPart ''call '', SynonymPart ''y'' False, TextPart '' or '', SynonymPart ''y'' True] =
     [[TextPart ''call'', TextPart '' or'']]"
  by code_simp

end
